theory Spec2Isabelle
  imports Main
begin

section \<open>Values on the Python side and on the bridge\<close>

text \<open>
  The module \<^verbatim>\<open>pyflink/table/expressions.py\<close> is a library of factory functions. Each one
  arranges its arguments, invokes a static method of the Java class \<^verbatim>\<open>Expressions\<close> through
  the gateway, and wraps the Java object that comes back in a Python \<^verbatim>\<open>Expression\<close>.

  Python is dynamically typed, so an argument is a value of one universal type. The
  constructors below are the kinds of value the module handles: Python scalars and lists,
  the \<^verbatim>\<open>Expression\<close> wrapper (holding its \<^verbatim>\<open>_j_expr\<close>), objects living on the Java side
  (an opaque object handle, an \<^verbatim>\<open>Object[]\<close> built by \<^verbatim>\<open>to_jarray\<close>, enum constants, data
  types), the Python enums and data type descriptors, and the user-defined-function
  wrapper (holding its Java function object).
\<close>

datatype JsonOnNull = NULL | ABSENT

datatype val =
    PyNone
  | PyBool bool
  | PyInt int
  | PyStr string
  | PyList "val list"
  | Expression (j_expr: val)
  | JavaObject nat
  | JavaArray "val list"
  | PyJsonOnNull JsonOnNull
  | JavaJsonOnNull JsonOnNull
  | PyTimePointUnit string
  | JavaTimePointUnit string
  | PyDataType string
  | JavaDataType string
  | UserDefinedFunctionWrapper val

datatype error = IndexError | AttributeError | TypeError | NameError | RemoteError

section \<open>The remote factory and the record of its invocations\<close>

text \<open>
  An invocation of the remote factory is either a static call by name,
  \<^verbatim>\<open>getattr(gateway.jvm.Expressions, op_name)(operands)\<close>, or the reflective
  \<^verbatim>\<open>Method.invoke\<close> of a declared method of \<^verbatim>\<open>Expressions\<close> obtained with
  \<^verbatim>\<open>getDeclaredMethod\<close>. The bridge state is the list of invocations made so far, oldest
  first.

  The factory itself is external. It is a parameter \<open>rf\<close>: given the invocations made so
  far and the current one it answers with an object, or fails (\<open>None\<close>: the bridge is not
  reachable, the operation does not resolve, or the engine raises). Nothing is assumed
  about it; in particular it may hand out a fresh object on every invocation.

  Only invocations of operations of \<^verbatim>\<open>Expressions\<close> are recorded. Obtaining the gateway
  (\<^verbatim>\<open>get_gateway()\<close>), building a Java array, translating an enum value or a data type and
  looking a method up by reflection also talk to the Java side, but they are not
  operations of the factory and leave no entry.
\<close>

datatype invocation =
    StaticCall string "val list"
  | MethodInvoke string "val list"

type_synonym remote = "invocation list \<Rightarrow> invocation \<Rightarrow> val option"

type_synonym 'a py = "invocation list \<Rightarrow> error + ('a \<times> invocation list)"

definition return_py :: "'a \<Rightarrow> 'a py" where
  "return_py x tr = Inr (x, tr)"

definition raise_py :: "error \<Rightarrow> 'a py" where
  "raise_py err tr = Inl err"

definition bind_py :: "'a py \<Rightarrow> ('a \<Rightarrow> 'b py) \<Rightarrow> 'b py" where
  "bind_py m k tr = (case m tr of Inl err \<Rightarrow> Inl err | Inr (x, tr') \<Rightarrow> k x tr')"

definition invoke :: "remote \<Rightarrow> invocation \<Rightarrow> val py" where
  "invoke rf ivc tr =
     (case rf tr ivc of None \<Rightarrow> Inl RemoteError | Some h \<Rightarrow> Inr (h, tr @ [ivc]))"

text \<open>\<^verbatim>\<open>getattr(gateway.jvm.Expressions, op_name)(*operands)\<close>\<close>

definition jvm_Expressions :: "remote \<Rightarrow> string \<Rightarrow> val list \<Rightarrow> val py" where
  "jvm_Expressions rf op_name operands = invoke rf (StaticCall op_name operands)"

text \<open>\<^verbatim>\<open>args[i]\<close> on the tuple of positional arguments: out of range raises.\<close>

definition item :: "val list \<Rightarrow> nat \<Rightarrow> val py" where
  "item xs i = (if i < length xs then return_py (xs ! i) else raise_py IndexError)"

section \<open>Helpers imported from other modules of pyflink\<close>

text \<open>
  Modelled from the spec: \<^verbatim>\<open>_get_java_expression\<close> of \<^verbatim>\<open>pyflink.table.expression\<close> is not in
  this module. The spec's data model says that a local expression wrapper owns one
  expression handle and exposes it for reuse as an argument, and that an operand is
  normalised before it is passed across the boundary: a wrapper is replaced by the handle
  it holds, any other operand is handed to the bridge as it is.
\<close>

fun get_java_expression :: "val \<Rightarrow> val" where
  "get_java_expression (Expression j) = j"
| "get_java_expression v = v"

text \<open>
  Modelled from the spec: \<^verbatim>\<open>to_jarray\<close> of \<^verbatim>\<open>pyflink.util.java_utils\<close> is not in this
  module. The spec describes it as expanding a variable-length argument list into an
  ordered sequence: the Java array holds the given elements in the given order.
\<close>

definition to_jarray :: "val list \<Rightarrow> val" where
  "to_jarray xs = JavaArray xs"

text \<open>
  Modelled from the spec: the methods \<^verbatim>\<open>_to_j_json_on_null\<close> and \<^verbatim>\<open>_to_j_time_point_unit\<close> of
  the enums and \<^verbatim>\<open>_to_java_data_type\<close> of \<^verbatim>\<open>pyflink.table.types\<close> are not in this module.
  The spec describes them as converting an auxiliary enum value (or a data type
  descriptor) into its remote-side representation. Called on a value of another class
  they raise, as a missing method does in Python.
\<close>

fun to_j_json_on_null :: "val \<Rightarrow> val py" where
  "to_j_json_on_null (PyJsonOnNull p) = return_py (JavaJsonOnNull p)"
| "to_j_json_on_null v = raise_py AttributeError"

fun to_j_time_point_unit :: "val \<Rightarrow> val py" where
  "to_j_time_point_unit (PyTimePointUnit u) = return_py (JavaTimePointUnit u)"
| "to_j_time_point_unit v = raise_py AttributeError"

fun to_java_data_type :: "val \<Rightarrow> val py" where
  "to_java_data_type (PyDataType d) = return_py (JavaDataType d)"
| "to_java_data_type v = raise_py TypeError"

text \<open>
  Modelled from the spec: \<^verbatim>\<open>UserDefinedFunctionWrapper._java_user_defined_function\<close> of
  \<^verbatim>\<open>pyflink.table.udf\<close> is not in this module. The spec speaks of a direct reference to a
  previously registered function object: the wrapper yields the Java function object it
  stands for; any other value has no such method.
\<close>

fun java_user_defined_function :: "val \<Rightarrow> val py" where
  "java_user_defined_function (UserDefinedFunctionWrapper j) = return_py j"
| "java_user_defined_function v = raise_py AttributeError"

section \<open>The arity-tagged builders\<close>

definition leaf_op :: "remote \<Rightarrow> string \<Rightarrow> val py" where
  "leaf_op rf op_name =
     bind_py (jvm_Expressions rf op_name []) (\<lambda>j. return_py (Expression j))"

definition unary_op :: "remote \<Rightarrow> string \<Rightarrow> val \<Rightarrow> val py" where
  "unary_op rf op_name arg =
     bind_py (jvm_Expressions rf op_name [get_java_expression arg])
       (\<lambda>j. return_py (Expression j))"

definition binary_op :: "remote \<Rightarrow> string \<Rightarrow> val \<Rightarrow> val \<Rightarrow> val py" where
  "binary_op rf op_name first second =
     bind_py (jvm_Expressions rf op_name
                [get_java_expression first, get_java_expression second])
       (\<lambda>j. return_py (Expression j))"

definition ternary_op :: "remote \<Rightarrow> string \<Rightarrow> val \<Rightarrow> val \<Rightarrow> val \<Rightarrow> val py" where
  "ternary_op rf op_name first second third =
     bind_py (jvm_Expressions rf op_name
                [get_java_expression first, get_java_expression second,
                 get_java_expression third])
       (\<lambda>j. return_py (Expression j))"

definition quaternion_op ::
  "remote \<Rightarrow> string \<Rightarrow> val \<Rightarrow> val \<Rightarrow> val \<Rightarrow> val \<Rightarrow> val py" where
  "quaternion_op rf op_name first second third forth =
     bind_py (jvm_Expressions rf op_name
                [get_java_expression first, get_java_expression second,
                 get_java_expression third, get_java_expression forth])
       (\<lambda>j. return_py (Expression j))"

definition varargs_op :: "remote \<Rightarrow> string \<Rightarrow> val list \<Rightarrow> val py" where
  "varargs_op rf op_name args =
     bind_py (jvm_Expressions rf op_name (map get_java_expression args))
       (\<lambda>j. return_py (Expression j))"

section \<open>The public functions\<close>

text \<open>
  A parameter with the default \<^verbatim>\<open>None\<close> is a parameter of the model; the caller who
  leaves it out passes \<open>PyNone\<close> (see \<open>call_public\<close> below, which binds positional
  arguments to parameters as the \<^verbatim>\<open>def\<close> lines do).
\<close>

definition col :: "remote \<Rightarrow> val \<Rightarrow> val py" where
  "col rf name = unary_op rf ''col'' name"

definition lit :: "remote \<Rightarrow> val \<Rightarrow> val \<Rightarrow> val py" where
  "lit rf v data_type =
     (if data_type = PyNone then unary_op rf ''lit'' v
      else bind_py (to_java_data_type data_type) (\<lambda>jt. binary_op rf ''lit'' v jt))"

definition to_date :: "remote \<Rightarrow> val \<Rightarrow> val \<Rightarrow> val py" where
  "to_date rf date_str format =
     (if format = PyNone then unary_op rf ''toDate'' date_str
      else binary_op rf ''toDate'' date_str format)"

definition to_timestamp :: "remote \<Rightarrow> val \<Rightarrow> val \<Rightarrow> val py" where
  "to_timestamp rf timestamp_str format =
     (if format = PyNone then unary_op rf ''toTimestamp'' timestamp_str
      else binary_op rf ''toTimestamp'' timestamp_str format)"

definition to_timestamp_ltz :: "remote \<Rightarrow> val list \<Rightarrow> val py" where
  "to_timestamp_ltz rf args =
     (if length args = 1 then
        bind_py (item args 0) (\<lambda>a0. bind_py (lit rf a0 PyNone) (\<lambda>l0.
          unary_op rf ''toTimestampLtz'' l0))
      else if length args = 2 then
        bind_py (item args 0) (\<lambda>a0. bind_py (lit rf a0 PyNone) (\<lambda>l0.
        bind_py (item args 1) (\<lambda>a1. bind_py (lit rf a1 PyNone) (\<lambda>l1.
          binary_op rf ''toTimestampLtz'' l0 l1))))
      else
        bind_py (item args 0) (\<lambda>a0. bind_py (lit rf a0 PyNone) (\<lambda>l0.
        bind_py (item args 1) (\<lambda>a1. bind_py (lit rf a1 PyNone) (\<lambda>l1.
        bind_py (item args 2) (\<lambda>a2. bind_py (lit rf a2 PyNone) (\<lambda>l2.
          ternary_op rf ''toTimestampLtz'' l0 l1 l2)))))))"

definition range_fn :: "remote \<Rightarrow> val \<Rightarrow> val \<Rightarrow> val py" where
  "range_fn rf start end =
     binary_op rf ''range'' start end"

definition and_fn :: "remote \<Rightarrow> val \<Rightarrow> val \<Rightarrow> val list \<Rightarrow> val py" where
  "and_fn rf predicate0 predicate1 predicates =
     ternary_op rf ''and'' predicate0 predicate1 (to_jarray (map get_java_expression predicates))"

definition or_fn :: "remote \<Rightarrow> val \<Rightarrow> val \<Rightarrow> val list \<Rightarrow> val py" where
  "or_fn rf predicate0 predicate1 predicates =
     ternary_op rf ''or'' predicate0 predicate1 (to_jarray (map get_java_expression predicates))"

definition not_fn :: "remote \<Rightarrow> val \<Rightarrow> val py" where
  "not_fn rf expression =
     unary_op rf ''not'' expression"

definition current_database :: "remote \<Rightarrow> val py" where
  "current_database rf =
     leaf_op rf ''currentDatabase''"

definition current_date :: "remote \<Rightarrow> val py" where
  "current_date rf =
     leaf_op rf ''currentDate''"

definition current_time :: "remote \<Rightarrow> val py" where
  "current_time rf =
     leaf_op rf ''currentTime''"

definition current_timestamp :: "remote \<Rightarrow> val py" where
  "current_timestamp rf =
     leaf_op rf ''currentTimestamp''"

definition current_watermark :: "remote \<Rightarrow> val \<Rightarrow> val py" where
  "current_watermark rf rowtimeAttribute =
     unary_op rf ''currentWatermark'' rowtimeAttribute"

definition local_time :: "remote \<Rightarrow> val py" where
  "local_time rf =
     leaf_op rf ''localTime''"

definition local_timestamp :: "remote \<Rightarrow> val py" where
  "local_timestamp rf =
     leaf_op rf ''localTimestamp''"

definition temporal_overlaps :: "remote \<Rightarrow> val \<Rightarrow> val \<Rightarrow> val \<Rightarrow> val \<Rightarrow> val py" where
  "temporal_overlaps rf left_time_point left_temporal right_time_point right_temporal =
     quaternion_op rf ''temporalOverlaps''
       left_time_point left_temporal right_time_point right_temporal"

definition date_format :: "remote \<Rightarrow> val \<Rightarrow> val \<Rightarrow> val py" where
  "date_format rf timestamp format =
     binary_op rf ''dateFormat'' timestamp format"

definition timestamp_diff :: "remote \<Rightarrow> val \<Rightarrow> val \<Rightarrow> val \<Rightarrow> val py" where
  "timestamp_diff rf time_point_unit time_point1 time_point2 =
     bind_py (to_j_time_point_unit time_point_unit) (\<lambda>ju.
       ternary_op rf ''timestampDiff'' ju time_point1 time_point2)"

definition convert_tz :: "remote \<Rightarrow> val \<Rightarrow> val \<Rightarrow> val \<Rightarrow> val py" where
  "convert_tz rf date_str tz_from tz_to =
     ternary_op rf ''convertTz'' date_str tz_from tz_to"

definition from_unixtime :: "remote \<Rightarrow> val \<Rightarrow> val \<Rightarrow> val py" where
  "from_unixtime rf unixtime format =
     (if format = PyNone then unary_op rf ''fromUnixtime'' unixtime
      else binary_op rf ''fromUnixtime'' unixtime format)"

definition unix_timestamp :: "remote \<Rightarrow> val \<Rightarrow> val \<Rightarrow> val py" where
  "unix_timestamp rf date_str format =
     (if date_str = PyNone then leaf_op rf ''unixTimestamp''
      else if format = PyNone then unary_op rf ''unixTimestamp'' date_str
      else binary_op rf ''unixTimestamp'' date_str format)"

definition array :: "remote \<Rightarrow> val \<Rightarrow> val list \<Rightarrow> val py" where
  "array rf head tail =
     binary_op rf ''array'' head (to_jarray (map get_java_expression tail))"

definition row :: "remote \<Rightarrow> val \<Rightarrow> val list \<Rightarrow> val py" where
  "row rf head tail =
     binary_op rf ''row'' head (to_jarray (map get_java_expression tail))"

definition map_fn :: "remote \<Rightarrow> val \<Rightarrow> val \<Rightarrow> val list \<Rightarrow> val py" where
  "map_fn rf key value tail =
     ternary_op rf ''map'' key value (to_jarray (map get_java_expression tail))"

definition map_from_arrays :: "remote \<Rightarrow> val \<Rightarrow> val \<Rightarrow> val py" where
  "map_from_arrays rf key value =
     binary_op rf ''mapFromArrays'' key value"

definition object_of :: "remote \<Rightarrow> val \<Rightarrow> val list \<Rightarrow> val py" where
  "object_of rf class_name args =
     varargs_op rf ''objectOf'' (class_name # args)"

definition row_interval :: "remote \<Rightarrow> val \<Rightarrow> val py" where
  "row_interval rf rows =
     unary_op rf ''rowInterval'' rows"

definition pi :: "remote \<Rightarrow> val py" where
  "pi rf =
     leaf_op rf ''pi''"

definition e_fn :: "remote \<Rightarrow> val py" where
  "e_fn rf =
     leaf_op rf ''e''"

definition rand :: "remote \<Rightarrow> val \<Rightarrow> val py" where
  "rand rf seed =
     (if seed = PyNone then leaf_op rf ''rand''
      else unary_op rf ''rand'' seed)"

definition rand_integer :: "remote \<Rightarrow> val \<Rightarrow> val \<Rightarrow> val py" where
  "rand_integer rf bound seed =
     (if seed = PyNone then unary_op rf ''randInteger'' bound
      else binary_op rf ''randInteger'' seed bound)"

definition atan2 :: "remote \<Rightarrow> val \<Rightarrow> val \<Rightarrow> val py" where
  "atan2 rf y x =
     binary_op rf ''atan2'' y x"

definition negative :: "remote \<Rightarrow> val \<Rightarrow> val py" where
  "negative rf v =
     unary_op rf ''negative'' v"

definition concat_fn :: "remote \<Rightarrow> val \<Rightarrow> val list \<Rightarrow> val py" where
  "concat_fn rf first others =
     binary_op rf ''concat'' first (to_jarray (map get_java_expression others))"

definition concat_ws :: "remote \<Rightarrow> val \<Rightarrow> val \<Rightarrow> val list \<Rightarrow> val py" where
  "concat_ws rf separator first others =
     ternary_op rf ''concatWs'' separator first (to_jarray (map get_java_expression others))"

definition uuid :: "remote \<Rightarrow> val py" where
  "uuid rf =
     leaf_op rf ''uuid''"

definition null_of :: "remote \<Rightarrow> val \<Rightarrow> val py" where
  "null_of rf data_type =
     bind_py (to_java_data_type data_type) (\<lambda>jt. unary_op rf ''nullOf'' jt)"

definition log :: "remote \<Rightarrow> val \<Rightarrow> val \<Rightarrow> val py" where
  "log rf v base =
     (if base = PyNone then unary_op rf ''log'' v
      else binary_op rf ''log'' base v)"

definition source_watermark :: "remote \<Rightarrow> val py" where
  "source_watermark rf =
     leaf_op rf ''sourceWatermark''"

definition if_then_else :: "remote \<Rightarrow> val \<Rightarrow> val \<Rightarrow> val \<Rightarrow> val py" where
  "if_then_else rf condition if_true if_false =
     ternary_op rf ''ifThenElse'' condition if_true if_false"

definition coalesce :: "remote \<Rightarrow> val list \<Rightarrow> val py" where
  "coalesce rf args =
     unary_op rf ''coalesce'' (to_jarray (map get_java_expression args))"

definition with_all_columns :: "remote \<Rightarrow> val py" where
  "with_all_columns rf =
     leaf_op rf ''withAllColumns''"

definition with_columns :: "remote \<Rightarrow> val \<Rightarrow> val list \<Rightarrow> val py" where
  "with_columns rf head tails =
     binary_op rf ''withColumns'' head (to_jarray (map get_java_expression tails))"

definition without_columns :: "remote \<Rightarrow> val \<Rightarrow> val list \<Rightarrow> val py" where
  "without_columns rf head tails =
     binary_op rf ''withoutColumns'' head (to_jarray (map get_java_expression tails))"

definition json :: "remote \<Rightarrow> val \<Rightarrow> val py" where
  "json rf v =
     unary_op rf ''json'' v"

definition json_string :: "remote \<Rightarrow> val \<Rightarrow> val py" where
  "json_string rf v =
     unary_op rf ''jsonString'' v"

definition json_object :: "remote \<Rightarrow> val \<Rightarrow> val list \<Rightarrow> val py" where
  "json_object rf on_null args =
     bind_py (to_j_json_on_null on_null) (\<lambda>jp. varargs_op rf ''jsonObject'' (jp # args))"

definition json_object_agg :: "remote \<Rightarrow> val \<Rightarrow> val \<Rightarrow> val \<Rightarrow> val py" where
  "json_object_agg rf on_null key_expr value_expr =
     bind_py (to_j_json_on_null on_null) (\<lambda>jp.
       ternary_op rf ''jsonObjectAgg'' jp key_expr value_expr)"

definition json_array :: "remote \<Rightarrow> val \<Rightarrow> val list \<Rightarrow> val py" where
  "json_array rf on_null args =
     bind_py (to_j_json_on_null on_null) (\<lambda>jp. varargs_op rf ''jsonArray'' (jp # args))"

definition json_array_agg :: "remote \<Rightarrow> val \<Rightarrow> val \<Rightarrow> val py" where
  "json_array_agg rf on_null item_expr =
     bind_py (to_j_json_on_null on_null) (\<lambda>jp. binary_op rf ''jsonArrayAgg'' jp item_expr)"

definition lag :: "remote \<Rightarrow> val \<Rightarrow> val \<Rightarrow> val \<Rightarrow> val py" where
  "lag rf expr offset default_value =
     (if default_value = PyNone then binary_op rf ''lag'' expr offset
      else ternary_op rf ''lag'' expr offset default_value)"

definition lead :: "remote \<Rightarrow> val \<Rightarrow> val \<Rightarrow> val \<Rightarrow> val py" where
  "lead rf expr offset default_value =
     (if default_value = PyNone then binary_op rf ''lead'' expr offset
      else ternary_op rf ''lead'' expr offset default_value)"

text \<open>\<^verbatim>\<open>isinstance(f, str)\<close>\<close>

fun isinstance_str :: "val \<Rightarrow> bool" where
  "isinstance_str (PyStr s) = True"
| "isinstance_str v = False"

text \<open>
  \<^verbatim>\<open>call\<close>: a string goes to \<^verbatim>\<open>gateway.jvm.Expressions.call\<close>. Anything else takes the
  second path: the declared method \<^verbatim>\<open>apiCall\<close> of \<^verbatim>\<open>Expressions\<close> is looked up by reflection
  and made accessible (class loading and method lookup are not invocations of a factory
  operation and leave no entry), then \<^verbatim>\<open>f._java_user_defined_function()\<close> is evaluated and
  the method is invoked on it and the array of arguments.
\<close>

definition call :: "remote \<Rightarrow> val \<Rightarrow> val list \<Rightarrow> val py" where
  "call rf f args =
     (if isinstance_str f then
        bind_py (jvm_Expressions rf ''call'' [f, to_jarray (map get_java_expression args)])
          (\<lambda>j. return_py (Expression j))
      else
        bind_py (java_user_defined_function f) (\<lambda>judf.
        bind_py (invoke rf (MethodInvoke ''apiCall''
                   [judf, to_jarray (map get_java_expression args)]))
          (\<lambda>j. return_py (Expression j))))"

definition call_sql :: "remote \<Rightarrow> val \<Rightarrow> val py" where
  "call_sql rf sql_expression =
     unary_op rf ''callSql'' sql_expression"

section \<open>Calling a public function\<close>

text \<open>
  The public functions of the module: every \<^verbatim>\<open>def\<close> whose name does not start with an
  underscore. \<open>call_public\<close> binds a tuple of positional arguments to the parameters of
  the \<^verbatim>\<open>def\<close> line: a missing optional parameter takes its default, the rest of the tuple
  goes to the starred parameter, and a tuple that does not fit the signature raises
  \<^verbatim>\<open>TypeError\<close> before the body runs.
\<close>

datatype public_function =
    F_col
  | F_lit
  | F_range_fn
  | F_and_fn
  | F_or_fn
  | F_not_fn
  | F_current_database
  | F_current_date
  | F_current_time
  | F_current_timestamp
  | F_current_watermark
  | F_local_time
  | F_local_timestamp
  | F_to_date
  | F_to_timestamp
  | F_to_timestamp_ltz
  | F_temporal_overlaps
  | F_date_format
  | F_timestamp_diff
  | F_convert_tz
  | F_from_unixtime
  | F_unix_timestamp
  | F_array
  | F_row
  | F_map_fn
  | F_map_from_arrays
  | F_object_of
  | F_row_interval
  | F_pi
  | F_e_fn
  | F_rand
  | F_rand_integer
  | F_atan2
  | F_negative
  | F_concat_fn
  | F_concat_ws
  | F_uuid
  | F_null_of
  | F_log
  | F_source_watermark
  | F_if_then_else
  | F_coalesce
  | F_with_all_columns
  | F_with_columns
  | F_without_columns
  | F_json
  | F_json_string
  | F_json_object
  | F_json_object_agg
  | F_json_array
  | F_json_array_agg
  | F_lag
  | F_lead
  | F_call
  | F_call_sql

primrec py_name :: "public_function \<Rightarrow> string" where
  "py_name F_col = ''col''"
| "py_name F_lit = ''lit''"
| "py_name F_range_fn = ''range_''"
| "py_name F_and_fn = ''and_''"
| "py_name F_or_fn = ''or_''"
| "py_name F_not_fn = ''not_''"
| "py_name F_current_database = ''current_database''"
| "py_name F_current_date = ''current_date''"
| "py_name F_current_time = ''current_time''"
| "py_name F_current_timestamp = ''current_timestamp''"
| "py_name F_current_watermark = ''current_watermark''"
| "py_name F_local_time = ''local_time''"
| "py_name F_local_timestamp = ''local_timestamp''"
| "py_name F_to_date = ''to_date''"
| "py_name F_to_timestamp = ''to_timestamp''"
| "py_name F_to_timestamp_ltz = ''to_timestamp_ltz''"
| "py_name F_temporal_overlaps = ''temporal_overlaps''"
| "py_name F_date_format = ''date_format''"
| "py_name F_timestamp_diff = ''timestamp_diff''"
| "py_name F_convert_tz = ''convert_tz''"
| "py_name F_from_unixtime = ''from_unixtime''"
| "py_name F_unix_timestamp = ''unix_timestamp''"
| "py_name F_array = ''array''"
| "py_name F_row = ''row''"
| "py_name F_map_fn = ''map_''"
| "py_name F_map_from_arrays = ''map_from_arrays''"
| "py_name F_object_of = ''object_of''"
| "py_name F_row_interval = ''row_interval''"
| "py_name F_pi = ''pi''"
| "py_name F_e_fn = ''e''"
| "py_name F_rand = ''rand''"
| "py_name F_rand_integer = ''rand_integer''"
| "py_name F_atan2 = ''atan2''"
| "py_name F_negative = ''negative''"
| "py_name F_concat_fn = ''concat''"
| "py_name F_concat_ws = ''concat_ws''"
| "py_name F_uuid = ''uuid''"
| "py_name F_null_of = ''null_of''"
| "py_name F_log = ''log''"
| "py_name F_source_watermark = ''source_watermark''"
| "py_name F_if_then_else = ''if_then_else''"
| "py_name F_coalesce = ''coalesce''"
| "py_name F_with_all_columns = ''with_all_columns''"
| "py_name F_with_columns = ''with_columns''"
| "py_name F_without_columns = ''without_columns''"
| "py_name F_json = ''json''"
| "py_name F_json_string = ''json_string''"
| "py_name F_json_object = ''json_object''"
| "py_name F_json_object_agg = ''json_object_agg''"
| "py_name F_json_array = ''json_array''"
| "py_name F_json_array_agg = ''json_array_agg''"
| "py_name F_lag = ''lag''"
| "py_name F_lead = ''lead''"
| "py_name F_call = ''call''"
| "py_name F_call_sql = ''call_sql''"

primrec call_public :: "remote \<Rightarrow> public_function \<Rightarrow> val list \<Rightarrow> val py" where
  "call_public rf F_col args =
     (case args of [a] \<Rightarrow> col rf a | _ \<Rightarrow> raise_py TypeError)"
| "call_public rf F_lit args =
     (case args of [a] \<Rightarrow> lit rf a PyNone | [a, b] \<Rightarrow> lit rf a b | _ \<Rightarrow> raise_py TypeError)"
| "call_public rf F_range_fn args =
     (case args of [a, b] \<Rightarrow> range_fn rf a b | _ \<Rightarrow> raise_py TypeError)"
| "call_public rf F_and_fn args =
     (case args of a # b # rest \<Rightarrow> and_fn rf a b rest | _ \<Rightarrow> raise_py TypeError)"
| "call_public rf F_or_fn args =
     (case args of a # b # rest \<Rightarrow> or_fn rf a b rest | _ \<Rightarrow> raise_py TypeError)"
| "call_public rf F_not_fn args =
     (case args of [a] \<Rightarrow> not_fn rf a | _ \<Rightarrow> raise_py TypeError)"
| "call_public rf F_current_database args =
     (case args of [] \<Rightarrow> current_database rf | _ \<Rightarrow> raise_py TypeError)"
| "call_public rf F_current_date args =
     (case args of [] \<Rightarrow> current_date rf | _ \<Rightarrow> raise_py TypeError)"
| "call_public rf F_current_time args =
     (case args of [] \<Rightarrow> current_time rf | _ \<Rightarrow> raise_py TypeError)"
| "call_public rf F_current_timestamp args =
     (case args of [] \<Rightarrow> current_timestamp rf | _ \<Rightarrow> raise_py TypeError)"
| "call_public rf F_current_watermark args =
     (case args of [a] \<Rightarrow> current_watermark rf a | _ \<Rightarrow> raise_py TypeError)"
| "call_public rf F_local_time args =
     (case args of [] \<Rightarrow> local_time rf | _ \<Rightarrow> raise_py TypeError)"
| "call_public rf F_local_timestamp args =
     (case args of [] \<Rightarrow> local_timestamp rf | _ \<Rightarrow> raise_py TypeError)"
| "call_public rf F_to_date args =
     (case args of [a] \<Rightarrow> to_date rf a PyNone | [a, b] \<Rightarrow> to_date rf a b | _ \<Rightarrow> raise_py TypeError)"
| "call_public rf F_to_timestamp args =
     (case args of [a] \<Rightarrow> to_timestamp rf a PyNone | [a, b] \<Rightarrow> to_timestamp rf a b | _ \<Rightarrow> raise_py TypeError)"
| "call_public rf F_to_timestamp_ltz args =
     to_timestamp_ltz rf args"
| "call_public rf F_temporal_overlaps args =
     (case args of [a, b, c, d] \<Rightarrow> temporal_overlaps rf a b c d | _ \<Rightarrow> raise_py TypeError)"
| "call_public rf F_date_format args =
     (case args of [a, b] \<Rightarrow> date_format rf a b | _ \<Rightarrow> raise_py TypeError)"
| "call_public rf F_timestamp_diff args =
     (case args of [a, b, c] \<Rightarrow> timestamp_diff rf a b c | _ \<Rightarrow> raise_py TypeError)"
| "call_public rf F_convert_tz args =
     (case args of [a, b, c] \<Rightarrow> convert_tz rf a b c | _ \<Rightarrow> raise_py TypeError)"
| "call_public rf F_from_unixtime args =
     (case args of [a] \<Rightarrow> from_unixtime rf a PyNone | [a, b] \<Rightarrow> from_unixtime rf a b | _ \<Rightarrow> raise_py TypeError)"
| "call_public rf F_unix_timestamp args =
     (case args of [] \<Rightarrow> unix_timestamp rf PyNone PyNone | [a] \<Rightarrow> unix_timestamp rf a PyNone | [a, b] \<Rightarrow> unix_timestamp rf a b | _ \<Rightarrow> raise_py TypeError)"
| "call_public rf F_array args =
     (case args of a # rest \<Rightarrow> array rf a rest | _ \<Rightarrow> raise_py TypeError)"
| "call_public rf F_row args =
     (case args of a # rest \<Rightarrow> row rf a rest | _ \<Rightarrow> raise_py TypeError)"
| "call_public rf F_map_fn args =
     (case args of a # b # rest \<Rightarrow> map_fn rf a b rest | _ \<Rightarrow> raise_py TypeError)"
| "call_public rf F_map_from_arrays args =
     (case args of [a, b] \<Rightarrow> map_from_arrays rf a b | _ \<Rightarrow> raise_py TypeError)"
| "call_public rf F_object_of args =
     (case args of a # rest \<Rightarrow> object_of rf a rest | _ \<Rightarrow> raise_py TypeError)"
| "call_public rf F_row_interval args =
     (case args of [a] \<Rightarrow> row_interval rf a | _ \<Rightarrow> raise_py TypeError)"
| "call_public rf F_pi args =
     (case args of [] \<Rightarrow> pi rf | _ \<Rightarrow> raise_py TypeError)"
| "call_public rf F_e_fn args =
     (case args of [] \<Rightarrow> e_fn rf | _ \<Rightarrow> raise_py TypeError)"
| "call_public rf F_rand args =
     (case args of [] \<Rightarrow> rand rf PyNone | [a] \<Rightarrow> rand rf a | _ \<Rightarrow> raise_py TypeError)"
| "call_public rf F_rand_integer args =
     (case args of [a] \<Rightarrow> rand_integer rf a PyNone | [a, b] \<Rightarrow> rand_integer rf a b | _ \<Rightarrow> raise_py TypeError)"
| "call_public rf F_atan2 args =
     (case args of [a, b] \<Rightarrow> atan2 rf a b | _ \<Rightarrow> raise_py TypeError)"
| "call_public rf F_negative args =
     (case args of [a] \<Rightarrow> negative rf a | _ \<Rightarrow> raise_py TypeError)"
| "call_public rf F_concat_fn args =
     (case args of a # rest \<Rightarrow> concat_fn rf a rest | _ \<Rightarrow> raise_py TypeError)"
| "call_public rf F_concat_ws args =
     (case args of a # b # rest \<Rightarrow> concat_ws rf a b rest | _ \<Rightarrow> raise_py TypeError)"
| "call_public rf F_uuid args =
     (case args of [] \<Rightarrow> uuid rf | _ \<Rightarrow> raise_py TypeError)"
| "call_public rf F_null_of args =
     (case args of [a] \<Rightarrow> null_of rf a | _ \<Rightarrow> raise_py TypeError)"
| "call_public rf F_log args =
     (case args of [a] \<Rightarrow> log rf a PyNone | [a, b] \<Rightarrow> log rf a b | _ \<Rightarrow> raise_py TypeError)"
| "call_public rf F_source_watermark args =
     (case args of [] \<Rightarrow> source_watermark rf | _ \<Rightarrow> raise_py TypeError)"
| "call_public rf F_if_then_else args =
     (case args of [a, b, c] \<Rightarrow> if_then_else rf a b c | _ \<Rightarrow> raise_py TypeError)"
| "call_public rf F_coalesce args =
     coalesce rf args"
| "call_public rf F_with_all_columns args =
     (case args of [] \<Rightarrow> with_all_columns rf | _ \<Rightarrow> raise_py TypeError)"
| "call_public rf F_with_columns args =
     (case args of a # rest \<Rightarrow> with_columns rf a rest | _ \<Rightarrow> raise_py TypeError)"
| "call_public rf F_without_columns args =
     (case args of a # rest \<Rightarrow> without_columns rf a rest | _ \<Rightarrow> raise_py TypeError)"
| "call_public rf F_json args =
     (case args of [a] \<Rightarrow> json rf a | _ \<Rightarrow> raise_py TypeError)"
| "call_public rf F_json_string args =
     (case args of [a] \<Rightarrow> json_string rf a | _ \<Rightarrow> raise_py TypeError)"
| "call_public rf F_json_object args =
     (case args of [] \<Rightarrow> json_object rf (PyJsonOnNull NULL) [] | a # rest \<Rightarrow> json_object rf a rest)"
| "call_public rf F_json_object_agg args =
     (case args of [a, b, c] \<Rightarrow> json_object_agg rf a b c | _ \<Rightarrow> raise_py TypeError)"
| "call_public rf F_json_array args =
     (case args of [] \<Rightarrow> json_array rf (PyJsonOnNull ABSENT) [] | a # rest \<Rightarrow> json_array rf a rest)"
| "call_public rf F_json_array_agg args =
     (case args of [a, b] \<Rightarrow> json_array_agg rf a b | _ \<Rightarrow> raise_py TypeError)"
| "call_public rf F_lag args =
     (case args of [a] \<Rightarrow> lag rf a (PyInt 1) PyNone | [a, b] \<Rightarrow> lag rf a b PyNone | [a, b, c] \<Rightarrow> lag rf a b c | _ \<Rightarrow> raise_py TypeError)"
| "call_public rf F_lead args =
     (case args of [a] \<Rightarrow> lead rf a (PyInt 1) PyNone | [a, b] \<Rightarrow> lead rf a b PyNone | [a, b, c] \<Rightarrow> lead rf a b c | _ \<Rightarrow> raise_py TypeError)"
| "call_public rf F_call args =
     (case args of a # rest \<Rightarrow> call rf a rest | _ \<Rightarrow> raise_py TypeError)"
| "call_public rf F_call_sql args =
     (case args of [a] \<Rightarrow> call_sql rf a | _ \<Rightarrow> raise_py TypeError)"

section \<open>The documentation pass at module load\<close>

text \<open>
  A function object carries the code it runs and its \<^verbatim>\<open>__doc__\<close> (which may be \<^verbatim>\<open>None\<close>).
  Function objects are mutable and a name of the module refers to one, so the module is
  a store of objects together with the list of its members, as \<^verbatim>\<open>inspect.getmembers\<close>
  returns it: pairs of a name and a reference. Two names may refer to the same object.
\<close>

record function_object =
  func_code :: "remote \<Rightarrow> val list \<Rightarrow> val py"
  func_doc :: "string option"

datatype object = Function function_object | OtherObject

type_synonym heap = "nat \<Rightarrow> object"

fun isfunction :: "object \<Rightarrow> bool" where
  "isfunction (Function f) = True"
| "isfunction OtherObject = False"

definition startswith :: "string \<Rightarrow> string \<Rightarrow> bool" where
  "startswith s p = (take (length p) s = p)"

text \<open>
  Modelled from the spec: \<^verbatim>\<open>add_version_doc\<close> of the package \<^verbatim>\<open>pyflink\<close> is not in this
  module. The spec says that it attaches a "since version" marker to a function for
  documentation purposes: the marker is appended to the function's documentation string
  (the empty string when there is none), and nothing else of the object changes.
\<close>

definition version_marker :: "string \<Rightarrow> string" where
  "version_marker version = [CHR 0x0A, CHR 0x0A] @ ''.. versionadded:: '' @ version"

fun add_version_doc :: "object \<Rightarrow> string \<Rightarrow> object" where
  "add_version_doc (Function f) version =
     Function (f\<lparr>func_doc :=
       Some ((case func_doc f of None \<Rightarrow> [] | Some d \<Rightarrow> d) @ version_marker version)\<rparr>)"
| "add_version_doc OtherObject version = OtherObject"

text \<open>The body of the loop of \<^verbatim>\<open>_add_version_doc\<close>, for one member \<^verbatim>\<open>o\<close>.\<close>

definition annotate_member :: "string \<times> nat \<Rightarrow> heap \<Rightarrow> heap" where
  "annotate_member m h =
     (if isfunction (h (snd m)) \<and> \<not> startswith (fst m) ''_''
      then h(snd m := add_version_doc (h (snd m)) ''1.12.0'')
      else h)"

definition module_add_version_doc :: "(string \<times> nat) list \<Rightarrow> heap \<Rightarrow> heap" where
  "module_add_version_doc members h = fold annotate_member members h"

text \<open>\<^verbatim>\<open>getattr(expressions, name)(*args)\<close>: calling a member of the module by name.\<close>

definition call_member ::
  "remote \<Rightarrow> (string \<times> nat) list \<Rightarrow> heap \<Rightarrow> string \<Rightarrow> val list \<Rightarrow> val py" where
  "call_member rf members h name args =
     (case map_of members name of
        None \<Rightarrow> raise_py NameError
      | Some r \<Rightarrow>
          (case h r of
             Function f \<Rightarrow> func_code f rf args
           | OtherObject \<Rightarrow> raise_py TypeError))"

definition ends_with :: "string \<Rightarrow> string \<Rightarrow> bool" where
  "ends_with s t = (length t \<le> length s \<and> drop (length s - length t) s = t)"

fun has_version_doc :: "object \<Rightarrow> string \<Rightarrow> bool" where
  "has_version_doc (Function f) version =
     (case func_doc f of None \<Rightarrow> False | Some d \<Rightarrow> ends_with d (version_marker version))"
| "has_version_doc OtherObject version = False"

fun code_of :: "object \<Rightarrow> (remote \<Rightarrow> val list \<Rightarrow> val py) option" where
  "code_of (Function f) = Some (func_code f)"
| "code_of OtherObject = None"

section \<open>A remote factory for concrete runs\<close>

text \<open>
  A factory that answers every invocation with a new object, numbered by the count of
  invocations before it, as a gateway numbers the objects it hands out.
\<close>

definition fresh_remote :: remote where
  "fresh_remote tr ivc = Some (JavaObject (length tr))"


text \<open>The invocation that \<^verbatim>\<open>lit(v)\<close> makes for an argument \<open>v\<close>.\<close>

definition lit_invocation :: "val \<Rightarrow> invocation" where
  "lit_invocation v = StaticCall ''lit'' [get_java_expression v]"

text \<open>
  A small module for concrete runs of the documentation pass: a private helper, the
  public function \<^verbatim>\<open>col\<close>, a constant that is not a function, and a second public name
  for the object of \<^verbatim>\<open>col\<close>.
\<close>

definition example_members :: "(string \<times> nat) list" where
  "example_members =
     [(''UNBOUNDED_ROW'', 2), (''_leaf_op'', 0), (''col'', 1), (''column'', 1)]"

definition example_heap :: heap where
  "example_heap =
     (\<lambda>r. OtherObject)
       (0 := Function \<lparr>func_code = (\<lambda>rf args. raise_py TypeError), func_doc = None\<rparr>,
        1 := Function \<lparr>func_code = (\<lambda>rf. call_public rf F_col),
                        func_doc = Some ''Creates an expression which refers to a column.''\<rparr>)"

section \<open>When a call returns\<close>

text \<open>
  A call returns exactly when every step before the end returned; the lemmas below say
  so for the monad, for the helpers and for each builder, with the bridge state that
  results.
\<close>

lemma return_py_Inr: "return_py x tr = Inr (y, tr') \<longleftrightarrow> y = x \<and> tr' = tr"
  by (auto simp: return_py_def)

lemma raise_py_Inr: "raise_py err tr \<noteq> Inr res"
  by (simp add: raise_py_def)

lemma bind_py_Inr:
  "bind_py m k tr = Inr res \<longleftrightarrow> (\<exists>x tr1. m tr = Inr (x, tr1) \<and> k x tr1 = Inr res)"
  by (auto simp: bind_py_def split: sum.splits)

lemma invoke_Inr: "invoke rf ivc tr = Inr (h, tr') \<longleftrightarrow> rf tr ivc = Some h \<and> tr' = tr @ [ivc]"
  by (auto simp: invoke_def split: option.splits)

lemma item_Inr: "item xs i tr = Inr (x, tr') \<longleftrightarrow> i < length xs \<and> x = xs ! i \<and> tr' = tr"
  by (auto simp: item_def return_py_def raise_py_def)

lemma wrap_Inr:
  "bind_py (invoke rf ivc) (\<lambda>j. return_py (Expression j)) tr = Inr (w, tr') \<longleftrightarrow>
     (\<exists>j. rf tr ivc = Some j \<and> w = Expression j \<and> tr' = tr @ [ivc])"
  by (auto simp: bind_py_Inr invoke_Inr return_py_Inr)

lemma leaf_op_Inr:
  "leaf_op rf n tr = Inr (w, tr') \<longleftrightarrow>
     (\<exists>j. rf tr (StaticCall n []) = Some j \<and> w = Expression j \<and> tr' = tr @ [StaticCall n []])"
  by (simp add: leaf_op_def jvm_Expressions_def wrap_Inr)

lemma unary_op_Inr:
  "unary_op rf n a tr = Inr (w, tr') \<longleftrightarrow>
     (\<exists>j. rf tr (StaticCall n [get_java_expression a]) = Some j \<and> w = Expression j \<and>
          tr' = tr @ [StaticCall n [get_java_expression a]])"
  by (simp add: unary_op_def jvm_Expressions_def wrap_Inr)

lemma binary_op_Inr:
  "binary_op rf n a b tr = Inr (w, tr') \<longleftrightarrow>
     (\<exists>j. rf tr (StaticCall n [get_java_expression a, get_java_expression b]) = Some j \<and>
          w = Expression j \<and>
          tr' = tr @ [StaticCall n [get_java_expression a, get_java_expression b]])"
  by (simp add: binary_op_def jvm_Expressions_def wrap_Inr)

lemma ternary_op_Inr:
  "ternary_op rf n a b c tr = Inr (w, tr') \<longleftrightarrow>
     (\<exists>j. rf tr (StaticCall n [get_java_expression a, get_java_expression b,
                                get_java_expression c]) = Some j \<and>
          w = Expression j \<and>
          tr' = tr @ [StaticCall n [get_java_expression a, get_java_expression b,
                                    get_java_expression c]])"
  by (simp add: ternary_op_def jvm_Expressions_def wrap_Inr)

lemma quaternion_op_Inr:
  "quaternion_op rf n a b c d tr = Inr (w, tr') \<longleftrightarrow>
     (\<exists>j. rf tr (StaticCall n [get_java_expression a, get_java_expression b,
                                get_java_expression c, get_java_expression d]) = Some j \<and>
          w = Expression j \<and>
          tr' = tr @ [StaticCall n [get_java_expression a, get_java_expression b,
                                    get_java_expression c, get_java_expression d]])"
  by (simp add: quaternion_op_def jvm_Expressions_def wrap_Inr)

lemma varargs_op_Inr:
  "varargs_op rf n args tr = Inr (w, tr') \<longleftrightarrow>
     (\<exists>j. rf tr (StaticCall n (map get_java_expression args)) = Some j \<and>
          w = Expression j \<and>
          tr' = tr @ [StaticCall n (map get_java_expression args)])"
  by (simp add: varargs_op_def jvm_Expressions_def wrap_Inr)

lemma lit_None_Inr:
  "lit rf v PyNone tr = Inr (w, tr') \<longleftrightarrow>
     (\<exists>j. rf tr (StaticCall ''lit'' [get_java_expression v]) = Some j \<and> w = Expression j \<and>
          tr' = tr @ [StaticCall ''lit'' [get_java_expression v]])"
  by (simp add: lit_def unary_op_Inr)


lemma to_j_json_on_null_Inr:
  "to_j_json_on_null v tr = Inr (x, tr') \<longleftrightarrow> (\<exists>p. v = PyJsonOnNull p \<and> x = JavaJsonOnNull p \<and> tr' = tr)"
  by (cases v) (auto simp: return_py_def raise_py_def)

lemma to_j_time_point_unit_Inr:
  "to_j_time_point_unit v tr = Inr (x, tr') \<longleftrightarrow> (\<exists>p. v = PyTimePointUnit p \<and> x = JavaTimePointUnit p \<and> tr' = tr)"
  by (cases v) (auto simp: return_py_def raise_py_def)

lemma to_java_data_type_Inr:
  "to_java_data_type v tr = Inr (x, tr') \<longleftrightarrow> (\<exists>p. v = PyDataType p \<and> x = JavaDataType p \<and> tr' = tr)"
  by (cases v) (auto simp: return_py_def raise_py_def)

lemma java_user_defined_function_Inr:
  "java_user_defined_function v tr = Inr (x, tr') \<longleftrightarrow> (v = UserDefinedFunctionWrapper x \<and> tr' = tr)"
  by (cases v) (auto simp: return_py_def raise_py_def)


section \<open>Dispatch by argument count\<close>

text \<open>
  Claim C1. \<^verbatim>\<open>to_timestamp_ltz\<close> with one argument ends in a unary invocation of
  \<^verbatim>\<open>toTimestampLtz\<close>, with two arguments in a binary one and with three in a ternary one.
  The operands are the objects the factory returned for \<^verbatim>\<open>lit\<close> of the first, second and
  third argument, in that order. The call returns exactly when the factory answers each
  of these invocations, and the wrapper holds the answer to the last.
\<close>

theorem to_timestamp_ltz_dispatch:
  "(to_timestamp_ltz rf [a0] tr = Inr (w, tr') \<longleftrightarrow>
      (\<exists>h0 j. rf tr (StaticCall ''lit'' [get_java_expression a0]) = Some h0 \<and>
         rf (tr @ [StaticCall ''lit'' [get_java_expression a0]])
            (StaticCall ''toTimestampLtz'' [h0]) = Some j \<and>
         w = Expression j \<and>
         tr' = tr @ [StaticCall ''lit'' [get_java_expression a0],
                     StaticCall ''toTimestampLtz'' [h0]]))
   \<and>
   (to_timestamp_ltz rf [a0, a1] tr = Inr (w, tr') \<longleftrightarrow>
      (\<exists>h0 h1 j. rf tr (StaticCall ''lit'' [get_java_expression a0]) = Some h0 \<and>
         rf (tr @ [StaticCall ''lit'' [get_java_expression a0]])
            (StaticCall ''lit'' [get_java_expression a1]) = Some h1 \<and>
         rf (tr @ [StaticCall ''lit'' [get_java_expression a0],
                   StaticCall ''lit'' [get_java_expression a1]])
            (StaticCall ''toTimestampLtz'' [h0, h1]) = Some j \<and>
         w = Expression j \<and>
         tr' = tr @ [StaticCall ''lit'' [get_java_expression a0],
                     StaticCall ''lit'' [get_java_expression a1],
                     StaticCall ''toTimestampLtz'' [h0, h1]]))
   \<and>
   (to_timestamp_ltz rf [a0, a1, a2] tr = Inr (w, tr') \<longleftrightarrow>
      (\<exists>h0 h1 h2 j. rf tr (StaticCall ''lit'' [get_java_expression a0]) = Some h0 \<and>
         rf (tr @ [StaticCall ''lit'' [get_java_expression a0]])
            (StaticCall ''lit'' [get_java_expression a1]) = Some h1 \<and>
         rf (tr @ [StaticCall ''lit'' [get_java_expression a0],
                   StaticCall ''lit'' [get_java_expression a1]])
            (StaticCall ''lit'' [get_java_expression a2]) = Some h2 \<and>
         rf (tr @ [StaticCall ''lit'' [get_java_expression a0],
                   StaticCall ''lit'' [get_java_expression a1],
                   StaticCall ''lit'' [get_java_expression a2]])
            (StaticCall ''toTimestampLtz'' [h0, h1, h2]) = Some j \<and>
         w = Expression j \<and>
         tr' = tr @ [StaticCall ''lit'' [get_java_expression a0],
                     StaticCall ''lit'' [get_java_expression a1],
                     StaticCall ''lit'' [get_java_expression a2],
                     StaticCall ''toTimestampLtz'' [h0, h1, h2]]))"
  apply (intro conjI)
  subgoal by (auto simp add: to_timestamp_ltz_def bind_py_Inr item_Inr lit_None_Inr unary_op_Inr)
  subgoal by (auto simp add: to_timestamp_ltz_def bind_py_Inr item_Inr lit_None_Inr binary_op_Inr)
  subgoal by (auto simp add: to_timestamp_ltz_def bind_py_Inr item_Inr lit_None_Inr ternary_op_Inr)
  done

theorem to_timestamp_ltz_dispatch_witness:
  "to_timestamp_ltz fresh_remote [PyInt 100] [] =
     Inr (Expression (JavaObject 1),
          [StaticCall ''lit'' [PyInt 100], StaticCall ''toTimestampLtz'' [JavaObject 0]])
   \<and> to_timestamp_ltz fresh_remote [PyInt 100, PyInt 3] [] =
     Inr (Expression (JavaObject 2),
          [StaticCall ''lit'' [PyInt 100], StaticCall ''lit'' [PyInt 3],
           StaticCall ''toTimestampLtz'' [JavaObject 0, JavaObject 1]])
   \<and> to_timestamp_ltz fresh_remote [PyStr ''01/01/2023'', PyStr ''MM/dd/yyyy'', PyStr ''UTC''] [] =
     Inr (Expression (JavaObject 3),
          [StaticCall ''lit'' [PyStr ''01/01/2023''], StaticCall ''lit'' [PyStr ''MM/dd/yyyy''],
           StaticCall ''lit'' [PyStr ''UTC''],
           StaticCall ''toTimestampLtz'' [JavaObject 0, JavaObject 1, JavaObject 2]])"
  using to_timestamp_ltz_dispatch [where rf = fresh_remote and tr = "[]"]
  by (simp add: fresh_remote_def)

section \<open>JSON construction\<close>

text \<open>
  Claim C2. \<^verbatim>\<open>json_object\<close> and \<^verbatim>\<open>json_array\<close> make one invocation of \<^verbatim>\<open>jsonObject\<close> or
  \<^verbatim>\<open>jsonArray\<close> whose first operand is the translated on-null policy and whose other
  operands are the value arguments, normalised, in order. With no value argument the
  policy is the only operand.
\<close>

theorem json_policy_first:
  "(json_object rf (PyJsonOnNull p) args tr = Inr (w, tr') \<longleftrightarrow>
      (\<exists>j. rf tr (StaticCall ''jsonObject''
                    (JavaJsonOnNull p # map get_java_expression args)) = Some j \<and>
           w = Expression j \<and>
           tr' = tr @ [StaticCall ''jsonObject''
                         (JavaJsonOnNull p # map get_java_expression args)]))
   \<and>
   (json_array rf (PyJsonOnNull p) args tr = Inr (w, tr') \<longleftrightarrow>
      (\<exists>j. rf tr (StaticCall ''jsonArray''
                    (JavaJsonOnNull p # map get_java_expression args)) = Some j \<and>
           w = Expression j \<and>
           tr' = tr @ [StaticCall ''jsonArray''
                         (JavaJsonOnNull p # map get_java_expression args)]))
   \<and>
   (json_object rf (PyJsonOnNull p) [] tr = Inr (w, tr') \<longleftrightarrow>
      (\<exists>j. rf tr (StaticCall ''jsonObject'' [JavaJsonOnNull p]) = Some j \<and>
           w = Expression j \<and>
           tr' = tr @ [StaticCall ''jsonObject'' [JavaJsonOnNull p]]))
   \<and>
   (json_array rf (PyJsonOnNull p) [] tr = Inr (w, tr') \<longleftrightarrow>
      (\<exists>j. rf tr (StaticCall ''jsonArray'' [JavaJsonOnNull p]) = Some j \<and>
           w = Expression j \<and>
           tr' = tr @ [StaticCall ''jsonArray'' [JavaJsonOnNull p]]))"
  by (simp add: json_object_def json_array_def bind_py_Inr return_py_Inr varargs_op_Inr)

theorem json_policy_first_witness:
  "json_object fresh_remote (PyJsonOnNull NULL) [PyStr ''K1'', Expression (JavaObject 7)] [] =
     Inr (Expression (JavaObject 0),
          [StaticCall ''jsonObject'' [JavaJsonOnNull NULL, PyStr ''K1'', JavaObject 7]])
   \<and> json_array fresh_remote (PyJsonOnNull ABSENT) [] [] =
     Inr (Expression (JavaObject 0), [StaticCall ''jsonArray'' [JavaJsonOnNull ABSENT]])"
  using json_policy_first [where rf = fresh_remote and tr = "[]"]
  by (simp add: fresh_remote_def)

section \<open>Calling a function by name or by reference\<close>

text \<open>
  Claim C3. \<^verbatim>\<open>call(f, *args)\<close> with a string \<open>f\<close> makes the static invocation \<^verbatim>\<open>call\<close> of
  the factory, with the name and the array of arguments. With a user-defined-function
  wrapper it makes the reflective invocation of \<^verbatim>\<open>apiCall\<close>, with the wrapper's Java
  function and the array of arguments. Whenever \<^verbatim>\<open>call\<close> returns, the one invocation it
  added is the static \<^verbatim>\<open>call\<close> if \<open>f\<close> is a string and the reflective \<^verbatim>\<open>apiCall\<close> if not
  (and then \<open>f\<close> is a wrapper).
\<close>

theorem call_routes:
  "(call rf (PyStr s) args tr = Inr (w, tr') \<longleftrightarrow>
      (\<exists>j. rf tr (StaticCall ''call''
                    [PyStr s, JavaArray (map get_java_expression args)]) = Some j \<and>
           w = Expression j \<and>
           tr' = tr @ [StaticCall ''call''
                         [PyStr s, JavaArray (map get_java_expression args)]]))
   \<and>
   (call rf (UserDefinedFunctionWrapper u) args tr = Inr (w, tr') \<longleftrightarrow>
      (\<exists>j. rf tr (MethodInvoke ''apiCall''
                    [u, JavaArray (map get_java_expression args)]) = Some j \<and>
           w = Expression j \<and>
           tr' = tr @ [MethodInvoke ''apiCall''
                         [u, JavaArray (map get_java_expression args)]]))
   \<and>
   (call rf f args tr = Inr (w, tr') \<longrightarrow>
      (if isinstance_str f
       then tr' = tr @ [StaticCall ''call'' [f, JavaArray (map get_java_expression args)]]
       else \<exists>u. f = UserDefinedFunctionWrapper u \<and>
              tr' = tr @ [MethodInvoke ''apiCall''
                            [u, JavaArray (map get_java_expression args)]]))"
  by (auto simp add: call_def jvm_Expressions_def invoke_Inr bind_py_Inr to_jarray_def
        return_py_Inr raise_py_Inr java_user_defined_function_Inr)

theorem call_routes_witness:
  "call fresh_remote (PyStr ''myFunc'') [PyInt 1] [] =
     Inr (Expression (JavaObject 0),
          [StaticCall ''call'' [PyStr ''myFunc'', JavaArray [PyInt 1]]])
   \<and> call fresh_remote (UserDefinedFunctionWrapper (JavaObject 9)) [PyInt 1] [] =
     Inr (Expression (JavaObject 0),
          [MethodInvoke ''apiCall'' [JavaObject 9, JavaArray [PyInt 1]]])"
  using call_routes [where rf = fresh_remote and tr = "[]"]
  by (simp add: fresh_remote_def)

section \<open>Logical connectives\<close>

text \<open>
  Claim C4. \<^verbatim>\<open>and_\<close> with three conditions makes one invocation of \<^verbatim>\<open>and\<close> with three
  operands: the first condition, the second condition, and an array holding the third.
  The conditions are passed on as they are, Python booleans included: nothing is
  evaluated locally. \<^verbatim>\<open>or_\<close> does the same with \<^verbatim>\<open>or\<close>.
\<close>

theorem and_three_conditions:
  "(and_fn rf p0 p1 [p2] tr = Inr (w, tr') \<longleftrightarrow>
      (\<exists>j. rf tr (StaticCall ''and''
                    [get_java_expression p0, get_java_expression p1,
                     JavaArray [get_java_expression p2]]) = Some j \<and>
           w = Expression j \<and>
           tr' = tr @ [StaticCall ''and''
                         [get_java_expression p0, get_java_expression p1,
                          JavaArray [get_java_expression p2]]]))
   \<and>
   (or_fn rf p0 p1 [p2] tr = Inr (w, tr') \<longleftrightarrow>
      (\<exists>j. rf tr (StaticCall ''or''
                    [get_java_expression p0, get_java_expression p1,
                     JavaArray [get_java_expression p2]]) = Some j \<and>
           w = Expression j \<and>
           tr' = tr @ [StaticCall ''or''
                         [get_java_expression p0, get_java_expression p1,
                          JavaArray [get_java_expression p2]]]))"
  by (simp add: and_fn_def or_fn_def ternary_op_Inr to_jarray_def)

theorem and_three_conditions_witness:
  "and_fn fresh_remote (PyBool True) (PyBool False) [Expression (JavaObject 5)] [] =
     Inr (Expression (JavaObject 0),
          [StaticCall ''and'' [PyBool True, PyBool False, JavaArray [JavaObject 5]]])"
  using and_three_conditions [where rf = fresh_remote and tr = "[]"]
  by (simp add: fresh_remote_def)

section \<open>Operand order of \<^verbatim>\<open>rand_integer\<close> and \<^verbatim>\<open>log\<close>\<close>

text \<open>
  Claim C8. With a seed, \<^verbatim>\<open>rand_integer(bound, seed)\<close> invokes \<^verbatim>\<open>randInteger\<close> with the seed
  first and the bound second; with a base, \<^verbatim>\<open>log(v, base)\<close> invokes \<^verbatim>\<open>log\<close> with the base
  first and the value second.
\<close>

theorem reversed_operands:
  "(seed \<noteq> PyNone \<longrightarrow>
      (rand_integer rf bound seed tr = Inr (w, tr') \<longleftrightarrow>
         (\<exists>j. rf tr (StaticCall ''randInteger''
                       [get_java_expression seed, get_java_expression bound]) = Some j \<and>
              w = Expression j \<and>
              tr' = tr @ [StaticCall ''randInteger''
                            [get_java_expression seed, get_java_expression bound]])))
   \<and>
   (base \<noteq> PyNone \<longrightarrow>
      (log rf v base tr = Inr (w, tr') \<longleftrightarrow>
         (\<exists>j. rf tr (StaticCall ''log''
                       [get_java_expression base, get_java_expression v]) = Some j \<and>
              w = Expression j \<and>
              tr' = tr @ [StaticCall ''log''
                            [get_java_expression base, get_java_expression v]])))"
  by (simp add: rand_integer_def log_def binary_op_Inr)

theorem reversed_operands_witness:
  "PyInt 42 \<noteq> PyNone
   \<and> rand_integer fresh_remote (PyInt 10) (PyInt 42) [] =
     Inr (Expression (JavaObject 0), [StaticCall ''randInteger'' [PyInt 42, PyInt 10]])
   \<and> log fresh_remote (PyInt 8) (PyInt 2) [] =
     Inr (Expression (JavaObject 0), [StaticCall ''log'' [PyInt 2, PyInt 8]])"
  using reversed_operands [where rf = fresh_remote and tr = "[]" and seed = "PyInt 42"
      and base = "PyInt 2"]
  by (simp add: fresh_remote_def)

section \<open>What one call adds to the bridge state\<close>

text \<open>
  Two runs of any public function but \<^verbatim>\<open>to_timestamp_ltz\<close> on the same arguments, on any
  two factories and from any two bridge states, add the same single invocation.
\<close>

lemma call_public_same_invocation:
  assumes "call_public rf1 f args tr1 = Inr (w1, tr1')"
    and "call_public rf2 f args tr2 = Inr (w2, tr2')"
    and "f \<noteq> F_to_timestamp_ltz"
  shows "\<exists>ivc. tr1' = tr1 @ [ivc] \<and> tr2' = tr2 @ [ivc]"
  using assms
  by (cases f)
     (auto simp add: col_def lit_def range_fn_def and_fn_def or_fn_def not_fn_def current_database_def current_date_def current_time_def current_timestamp_def current_watermark_def local_time_def local_timestamp_def to_date_def to_timestamp_def temporal_overlaps_def date_format_def timestamp_diff_def convert_tz_def from_unixtime_def unix_timestamp_def array_def row_def map_fn_def map_from_arrays_def object_of_def row_interval_def pi_def e_fn_def rand_def rand_integer_def atan2_def negative_def concat_fn_def concat_ws_def uuid_def null_of_def log_def source_watermark_def if_then_else_def coalesce_def with_all_columns_def with_columns_def without_columns_def json_def json_string_def json_object_def json_object_agg_def json_array_def json_array_agg_def lag_def lead_def call_def call_sql_def
        bind_py_Inr return_py_Inr raise_py_Inr invoke_Inr jvm_Expressions_def
        leaf_op_Inr unary_op_Inr binary_op_Inr ternary_op_Inr quaternion_op_Inr varargs_op_Inr
        to_j_json_on_null_Inr to_j_time_point_unit_Inr to_java_data_type_Inr
        java_user_defined_function_Inr
        split: list.splits if_splits)

text \<open>
  Whenever \<^verbatim>\<open>to_timestamp_ltz\<close> returns there was an argument, and it added one \<^verbatim>\<open>lit\<close>
  invocation for each of the first three arguments and then one \<^verbatim>\<open>toTimestampLtz\<close>
  invocation whose operands are the factory's answers to them, in order.
\<close>

lemma to_timestamp_ltz_returns:
  assumes "to_timestamp_ltz rf args tr = Inr (w, tr')"
  shows "args \<noteq> [] \<and>
    (\<exists>hs j. length hs = min (length args) 3 \<and>
       tr' = tr @ map lit_invocation (take 3 args) @ [StaticCall ''toTimestampLtz'' hs] \<and>
       w = Expression j \<and>
       (\<forall>i < length hs.
          rf (tr @ map lit_invocation (take i args)) (lit_invocation (args ! i)) = Some (hs ! i)))"
proof -
  consider "args = []" | a where "args = [a]" | a b where "args = [a, b]"
    | a b c rest where "args = a # b # c # rest"
    by (metis list.exhaust)
  then show ?thesis
  proof cases
    case 1
    with assms show ?thesis
      by (simp add: to_timestamp_ltz_def bind_py_Inr item_Inr)
  next
    case 2
    with assms obtain h0 j where
      "rf tr (lit_invocation a) = Some h0" "w = Expression j"
      "tr' = tr @ [lit_invocation a, StaticCall ''toTimestampLtz'' [h0]]"
      by (auto simp add: to_timestamp_ltz_def bind_py_Inr item_Inr lit_None_Inr unary_op_Inr
            lit_invocation_def)
    with 2 show ?thesis
      by (intro conjI exI [of _ "[h0]"] exI [of _ j]) auto
  next
    case 3
    with assms obtain h0 h1 j where
      "rf tr (lit_invocation a) = Some h0"
      "rf (tr @ [lit_invocation a]) (lit_invocation b) = Some h1" "w = Expression j"
      "tr' = tr @ [lit_invocation a, lit_invocation b, StaticCall ''toTimestampLtz'' [h0, h1]]"
      by (auto simp add: to_timestamp_ltz_def bind_py_Inr item_Inr lit_None_Inr binary_op_Inr
            lit_invocation_def)
    with 3 show ?thesis
      by (intro conjI exI [of _ "[h0, h1]"] exI [of _ j]) (auto simp: less_Suc_eq)
  next
    case 4
    with assms obtain h0 h1 h2 j where
      "rf tr (lit_invocation a) = Some h0"
      "rf (tr @ [lit_invocation a]) (lit_invocation b) = Some h1"
      "rf (tr @ [lit_invocation a, lit_invocation b]) (lit_invocation c) = Some h2"
      "w = Expression j"
      "tr' = tr @ [lit_invocation a, lit_invocation b, lit_invocation c,
                   StaticCall ''toTimestampLtz'' [h0, h1, h2]]"
      by (auto simp add: to_timestamp_ltz_def bind_py_Inr item_Inr lit_None_Inr ternary_op_Inr
            lit_invocation_def)
    with 4 show ?thesis
      by (intro conjI exI [of _ "[h0, h1, h2]"] exI [of _ j])
         (auto simp: less_Suc_eq numeral_3_eq_3)
  qed
qed


text \<open>
  Claim C5, as amended. A call of a public function that returns has added invocations of
  factory operations at the end of the bridge state and changed nothing before them:
  exactly one for every public function but \<^verbatim>\<open>to_timestamp_ltz\<close>, and for
  \<^verbatim>\<open>to_timestamp_ltz\<close> one \<^verbatim>\<open>lit\<close> invocation for each of its first three arguments and then
  one \<^verbatim>\<open>toTimestampLtz\<close> invocation.
\<close>

theorem invocations_per_call:
  assumes "call_public rf f args tr = Inr (w, tr')"
  shows "\<exists>new. tr' = tr @ new \<and>
           length new = (if f = F_to_timestamp_ltz then Suc (min (length args) 3) else 1)"
proof (cases "f = F_to_timestamp_ltz")
  case True
  with assms have "to_timestamp_ltz rf args tr = Inr (w, tr')" by simp
  from to_timestamp_ltz_returns [OF this] obtain hs where
    "length hs = min (length args) 3"
    "tr' = tr @ map lit_invocation (take 3 args) @ [StaticCall ''toTimestampLtz'' hs]"
    by blast
  with True show ?thesis by simp
next
  case False
  from call_public_same_invocation [OF assms assms False] obtain ivc where "tr' = tr @ [ivc]"
    by blast
  with False show ?thesis by simp
qed

theorem invocations_per_call_witness:
  "call_public fresh_remote F_and_fn [PyBool True, PyBool False, PyBool True] [] =
     Inr (Expression (JavaObject 0),
          [StaticCall ''and'' [PyBool True, PyBool False, JavaArray [PyBool True]]])
   \<and> (\<exists>new. [StaticCall ''and'' [PyBool True, PyBool False, JavaArray [PyBool True]]] = [] @ new
          \<and> length new = 1)
   \<and> call_public fresh_remote F_to_timestamp_ltz [PyInt 100, PyInt 3] [] =
     Inr (Expression (JavaObject 2),
          [StaticCall ''lit'' [PyInt 100], StaticCall ''lit'' [PyInt 3],
           StaticCall ''toTimestampLtz'' [JavaObject 0, JavaObject 1]])
   \<and> (\<exists>new. [StaticCall ''lit'' [PyInt 100], StaticCall ''lit'' [PyInt 3],
              StaticCall ''toTimestampLtz'' [JavaObject 0, JavaObject 1]] = [] @ new
          \<and> length new = 3)"
proof -
  have a: "call_public fresh_remote F_and_fn [PyBool True, PyBool False, PyBool True] [] =
     Inr (Expression (JavaObject 0),
          [StaticCall ''and'' [PyBool True, PyBool False, JavaArray [PyBool True]]])"
    by (simp add: and_fn_def ternary_op_def jvm_Expressions_def invoke_def bind_py_def
          return_py_def to_jarray_def fresh_remote_def)
  have b: "call_public fresh_remote F_to_timestamp_ltz [PyInt 100, PyInt 3] [] =
     Inr (Expression (JavaObject 2),
          [StaticCall ''lit'' [PyInt 100], StaticCall ''lit'' [PyInt 3],
           StaticCall ''toTimestampLtz'' [JavaObject 0, JavaObject 1]])"
    by (simp add: to_timestamp_ltz_def lit_def item_def unary_op_def binary_op_def
          jvm_Expressions_def invoke_def bind_py_def return_py_def fresh_remote_def)
  from invocations_per_call [OF a] invocations_per_call [OF b] a b show ?thesis
    by simp
qed

theorem invocations_per_call_counterexample:
  "\<not> (\<forall>rf f args tr w tr'.
        call_public rf f args tr = Inr (w, tr') \<longrightarrow> length tr' = length tr + 1)"
proof
  assume all: "\<forall>rf f args tr w tr'.
        call_public rf f args tr = Inr (w, tr') \<longrightarrow> length tr' = length tr + 1"
  have "call_public fresh_remote F_to_timestamp_ltz [PyInt 100] [] =
     Inr (Expression (JavaObject 1),
          [StaticCall ''lit'' [PyInt 100], StaticCall ''toTimestampLtz'' [JavaObject 0]])"
    by (simp add: to_timestamp_ltz_def lit_def item_def unary_op_def
          jvm_Expressions_def invoke_def bind_py_def return_py_def fresh_remote_def)
  with all have
    "length [StaticCall ''lit'' [PyInt 100], StaticCall ''toTimestampLtz'' [JavaObject 0]] =
     length ([] :: invocation list) + 1"
    by blast
  then show False by simp
qed





section \<open>The documentation pass changes documentation only\<close>

lemma ends_with_append: "ends_with (d @ t) t"
  by (simp add: ends_with_def)

lemma code_of_add_version_doc: "code_of (add_version_doc ob v) = code_of ob"
  by (cases ob) simp_all

lemma isfunction_add_version_doc: "isfunction (add_version_doc ob v) = isfunction ob"
  by (cases ob) simp_all

lemma has_version_doc_add: "isfunction ob \<Longrightarrow> has_version_doc (add_version_doc ob v) v"
  by (cases ob) (simp_all add: ends_with_append)

lemma code_of_annotate_member: "code_of (annotate_member m h r) = code_of (h r)"
  by (simp add: annotate_member_def code_of_add_version_doc)

lemma isfunction_annotate_member: "isfunction (annotate_member m h r) = isfunction (h r)"
  by (simp add: annotate_member_def isfunction_add_version_doc)

lemma has_version_doc_annotate_member:
  "has_version_doc (h r) ''1.12.0'' \<Longrightarrow> has_version_doc (annotate_member m h r) ''1.12.0''"
  by (simp add: annotate_member_def has_version_doc_add)

lemma code_of_fold: "code_of (fold annotate_member ms h r) = code_of (h r)"
  by (induction ms arbitrary: h) (simp_all add: code_of_annotate_member)

lemma isfunction_fold: "isfunction (fold annotate_member ms h r) = isfunction (h r)"
  by (induction ms arbitrary: h) (simp_all add: isfunction_annotate_member)

lemma has_version_doc_fold_keeps:
  "has_version_doc (h r) ''1.12.0'' \<Longrightarrow> has_version_doc (fold annotate_member ms h r) ''1.12.0''"
  by (induction ms arbitrary: h) (simp_all add: has_version_doc_annotate_member)

lemma has_version_doc_fold:
  "(name, r) \<in> set ms \<Longrightarrow> isfunction (h r) \<Longrightarrow> \<not> startswith name ''_'' \<Longrightarrow>
   has_version_doc (fold annotate_member ms h r) ''1.12.0''"
proof (induction ms arbitrary: h)
  case Nil
  then show ?case by simp
next
  case (Cons m ms)
  show ?case
  proof (cases "m = (name, r)")
    case True
    with Cons.prems have "has_version_doc (annotate_member m h r) ''1.12.0''"
      by (simp add: annotate_member_def has_version_doc_add)
    then show ?thesis
      by (simp add: has_version_doc_fold_keeps)
  next
    case False
    with Cons.prems have "(name, r) \<in> set ms" by simp
    moreover from Cons.prems have "isfunction (annotate_member m h r)"
      by (simp add: isfunction_annotate_member)
    ultimately show ?thesis
      using Cons.IH Cons.prems(3) by simp
  qed
qed

lemma fold_annotate_unchanged:
  "(\<And>name. (name, r) \<in> set ms \<Longrightarrow> startswith name ''_'' \<or> \<not> isfunction (h r)) \<Longrightarrow>
   fold annotate_member ms h r = h r"
proof (induction ms arbitrary: h)
  case Nil
  then show ?case by simp
next
  case (Cons m ms)
  have step: "annotate_member m h r = h r"
    using Cons.prems [of "fst m"] by (cases m) (auto simp add: annotate_member_def)
  have "fold annotate_member ms (annotate_member m h) r = annotate_member m h r"
  proof (rule Cons.IH)
    fix name assume "(name, r) \<in> set ms"
    then show "startswith name ''_'' \<or> \<not> isfunction (annotate_member m h r)"
      using Cons.prems [of name] by (simp add: isfunction_annotate_member)
  qed
  with step show ?case by simp
qed

lemma call_member_code_of:
  "code_of ob1 = code_of ob2 \<Longrightarrow>
   (case ob1 of Function f \<Rightarrow> func_code f rf args | OtherObject \<Rightarrow> raise_py TypeError) =
   (case ob2 of Function f \<Rightarrow> func_code f rf args | OtherObject \<Rightarrow> raise_py TypeError)"
  by (cases ob1; cases ob2) simp_all


text \<open>
  Claim C7. After the pass over the members of the module, every function bound to a name
  that does not start with an underscore carries the marker of version 1.12.0. The code
  of every object is what it was, an object that no such name is bound to is unchanged,
  and calling any member by name with any arguments, on any factory and bridge state,
  gives the same result and the same bridge state as it would without the pass.
\<close>

theorem version_doc_pass:
  "(\<forall>(name, r) \<in> set members.
      isfunction (h r) \<and> \<not> startswith name ''_'' \<longrightarrow>
      has_version_doc (module_add_version_doc members h r) ''1.12.0'')
   \<and> (\<forall>r. code_of (module_add_version_doc members h r) = code_of (h r))
   \<and> (\<forall>r. (\<forall>name. (name, r) \<in> set members \<longrightarrow>
                startswith name ''_'' \<or> \<not> isfunction (h r)) \<longrightarrow>
           module_add_version_doc members h r = h r)
   \<and> (\<forall>rf name args tr.
        call_member rf members (module_add_version_doc members h) name args tr =
        call_member rf members h name args tr)"
proof (intro conjI)
  show "\<forall>(name, r) \<in> set members.
      isfunction (h r) \<and> \<not> startswith name ''_'' \<longrightarrow>
      has_version_doc (module_add_version_doc members h r) ''1.12.0''"
    by (auto simp add: module_add_version_doc_def has_version_doc_fold)
  show "\<forall>r. code_of (module_add_version_doc members h r) = code_of (h r)"
    by (simp add: module_add_version_doc_def code_of_fold)
  show "\<forall>r. (\<forall>name. (name, r) \<in> set members \<longrightarrow>
                startswith name ''_'' \<or> \<not> isfunction (h r)) \<longrightarrow>
           module_add_version_doc members h r = h r"
    by (auto simp add: module_add_version_doc_def intro!: fold_annotate_unchanged)
  show "\<forall>rf name args tr.
        call_member rf members (module_add_version_doc members h) name args tr =
        call_member rf members h name args tr"
  proof (intro allI)
    fix rf name args tr
    show "call_member rf members (module_add_version_doc members h) name args tr =
        call_member rf members h name args tr"
    proof (cases "map_of members name")
      case None
      then show ?thesis by (simp add: call_member_def)
    next
      case (Some r)
      have "code_of (module_add_version_doc members h r) = code_of (h r)"
        by (simp add: module_add_version_doc_def code_of_fold)
      from call_member_code_of [OF this] Some show ?thesis
        by (simp add: call_member_def)
    qed
  qed
qed

theorem version_doc_pass_witness:
  "has_version_doc (module_add_version_doc example_members example_heap 1) ''1.12.0''
   \<and> module_add_version_doc example_members example_heap 0 = example_heap 0
   \<and> module_add_version_doc example_members example_heap 2 = example_heap 2
   \<and> call_member fresh_remote example_members
        (module_add_version_doc example_members example_heap) ''col'' [PyStr ''key''] [] =
      Inr (Expression (JavaObject 0), [StaticCall ''col'' [PyStr ''key'']])"
proof -
  have h4: "call_member fresh_remote example_members example_heap ''col'' [PyStr ''key''] [] =
      Inr (Expression (JavaObject 0), [StaticCall ''col'' [PyStr ''key'']])"
    by (simp add: call_member_def example_members_def example_heap_def col_def unary_op_def
          jvm_Expressions_def invoke_def bind_py_def return_py_def fresh_remote_def)
  have h1: "(''col'', 1) \<in> set example_members"
    by (simp add: example_members_def)
  have h2: "isfunction (example_heap 1) \<and> \<not> startswith ''col'' ''_''"
    by (simp add: example_heap_def startswith_def)
  have h0: "\<forall>name. (name, 0) \<in> set example_members \<longrightarrow>
      startswith name ''_'' \<or> \<not> isfunction (example_heap 0)"
    by (simp add: example_members_def startswith_def)
  have h3: "\<forall>name. (name, 2) \<in> set example_members \<longrightarrow>
      startswith name ''_'' \<or> \<not> isfunction (example_heap 2)"
    by (simp add: example_members_def example_heap_def)
  from version_doc_pass [of example_members example_heap] h1 h2 h0 h3 h4
  show ?thesis
    by auto
qed

section \<open>Literal wrapping in \<^verbatim>\<open>to_timestamp_ltz\<close>\<close>










section \<open>Default on-null policies\<close>

text \<open>
  Claim C10. Called with no arguments, \<^verbatim>\<open>json_object\<close> invokes \<^verbatim>\<open>jsonObject\<close> with the
  translation of \<^verbatim>\<open>JsonOnNull.NULL\<close> as its only operand and \<^verbatim>\<open>json_array\<close> invokes
  \<^verbatim>\<open>jsonArray\<close> with the translation of \<^verbatim>\<open>JsonOnNull.ABSENT\<close>; the two translations differ.
\<close>

theorem default_policies:
  "(call_public rf F_json_object [] tr = Inr (w, tr') \<longleftrightarrow>
      (\<exists>j. rf tr (StaticCall ''jsonObject'' [JavaJsonOnNull NULL]) = Some j \<and>
           w = Expression j \<and>
           tr' = tr @ [StaticCall ''jsonObject'' [JavaJsonOnNull NULL]]))
   \<and>
   (call_public rf F_json_array [] tr = Inr (w, tr') \<longleftrightarrow>
      (\<exists>j. rf tr (StaticCall ''jsonArray'' [JavaJsonOnNull ABSENT]) = Some j \<and>
           w = Expression j \<and>
           tr' = tr @ [StaticCall ''jsonArray'' [JavaJsonOnNull ABSENT]]))
   \<and>
   to_j_json_on_null (PyJsonOnNull NULL) tr \<noteq> to_j_json_on_null (PyJsonOnNull ABSENT) tr"
  by (simp add: json_object_def json_array_def bind_py_Inr return_py_Inr varargs_op_Inr
        return_py_def)

theorem default_policies_witness:
  "call_public fresh_remote F_json_object [] [] =
     Inr (Expression (JavaObject 0), [StaticCall ''jsonObject'' [JavaJsonOnNull NULL]])
   \<and> call_public fresh_remote F_json_array [] [] =
     Inr (Expression (JavaObject 0), [StaticCall ''jsonArray'' [JavaJsonOnNull ABSENT]])"
  using default_policies [where rf = fresh_remote and tr = "[]"]
  by (simp add: fresh_remote_def)

end
